theory Spec2Isabelle
  imports Main
begin

section \<open>Strings and JSON values\<close>

text \<open>
  A Python \<open>str\<close> is a sequence of Unicode code points, so it is modelled as a list of
  natural numbers. \<open>ascii\<close> turns an ASCII literal of the source into that form.
\<close>

type_synonym pystr = "nat list"

definition ascii :: "string \<Rightarrow> pystr" where
  "ascii s = map of_char s"

text \<open>
  The values \<open>json.load\<close> produces. A JSON object becomes a Python dict, modelled as an
  association list that is read with \<open>map_of\<close>; a dict holds each key once.
  \<open>JFloat m e\<close> stands for a non-integer number with mantissa \<open>m\<close>; the program
  never computes with one.
\<close>

datatype json =
    JNull
  | JBool bool
  | JInt int
  | JFloat int int
  | JStr pystr
  | JArr "json list"
  | JObj "(pystr \<times> json) list"

text \<open>Python's truth value of such a value, as \<open>if not x\<close> tests it.\<close>

fun truthy :: "json \<Rightarrow> bool" where
  "truthy JNull = False"
| "truthy (JBool b) = b"
| "truthy (JInt i) = (i \<noteq> 0)"
| "truthy (JFloat m e) = (m \<noteq> 0)"
| "truthy (JStr s) = (s \<noteq> [])"
| "truthy (JArr xs) = (xs \<noteq> [])"
| "truthy (JObj kvs) = (kvs \<noteq> [])"

text \<open>\<open>d.get(k, default)\<close> on a dict.\<close>

definition dict_get :: "(pystr \<times> json) list \<Rightarrow> pystr \<Rightarrow> json \<Rightarrow> json" where
  "dict_get d k dflt = (case map_of d k of None \<Rightarrow> dflt | Some v \<Rightarrow> v)"

section \<open>Failures\<close>

text \<open>
  The source has one exception class of its own, \<open>AnkiConnectError\<close>, raised at three
  places of \<open>_request\<close>. Its message is kept in structured form:
  \<^item> \<open>Not_reachable\<close>: the fixed text "Anki-Connect is not reachable - is Anki running?";
  \<^item> \<open>Invalid_response r\<close>: "Invalid response from Anki-Connect: " followed by \<open>str(r)\<close>;
  \<^item> \<open>Error_str e\<close>: \<open>str(e)\<close> for the value \<open>e\<close> of the response's error key.

  \<open>ValueError\<close> is the exception the program raises itself for a wrong ease;
  \<open>KeyError\<close> and \<open>AttributeError\<close> come from reading the card. \<open>OtherError\<close> is
  any exception raised inside a library call (\<open>urlopen\<close>, \<open>json.load\<close>,
  \<open>BeautifulSoup\<close>) for which the program has no handler, whatever its Python
  class: the \<open>JSONDecodeError\<close> of \<open>json.load\<close>, for one, is a subclass of
  Python's \<open>ValueError\<close>.
\<close>

datatype anki_message =
    Not_reachable
  | Invalid_response json
  | Error_str json

datatype error =
    AnkiConnectError anki_message
  | ValueError pystr
  | KeyError pystr
  | AttributeError
  | OtherError pystr

section \<open>The remote client\<close>

text \<open>
  The request body \<open>{"action": action, "version": 6, "params": params or {}}\<close>.
\<close>

record payload =
  action :: pystr
  version :: int
  params :: "(pystr \<times> json) list"

text \<open>
  What \<open>urlopen\<close> followed by \<open>json.load\<close> gives: a \<open>URLError\<close>, some other
  exception, or the decoded body.
\<close>

datatype reply =
    URLError
  | Raised pystr
  | Body json

text \<open>
  The flashcard application behind the endpoint is a parameter of the model: a
  transition function from its state and a request to a reply and its next state.
\<close>

type_synonym 'w service = "'w \<Rightarrow> payload \<Rightarrow> reply \<times> 'w"

text \<open>
  The state the program acts on: the application's state and the trace of what the
  program did to the outside (requests issued, pauses taken), oldest first. The lines
  written to the log are left out.
\<close>

datatype event =
    Sent payload
  | Slept nat

record 'w world =
  app :: 'w
  trace :: "event list"

type_synonym ('w, 'a) io = "'w world \<Rightarrow> (error + 'a) \<times> 'w world"

text \<open>Sequencing of two steps: an exception of the first skips the second.\<close>

definition bind_io :: "('w, 'a) io \<Rightarrow> ('a \<Rightarrow> ('w, 'b) io) \<Rightarrow> ('w, 'b) io" where
  "bind_io m f st = (case m st of (Inl e, st') \<Rightarrow> (Inl e, st') | (Inr x, st') \<Rightarrow> f x st')"

definition return_io :: "'a \<Rightarrow> ('w, 'a) io" where
  "return_io x st = (Inr x, st)"

text \<open>A step that has no effect on the outside and may raise.\<close>

definition lift_io :: "error + 'a \<Rightarrow> ('w, 'a) io" where
  "lift_io r st = (r, st)"

text \<open>
  \<open>AnkiClient._request(action, params)\<close>. \<open>response.keys()\<close> raises
  \<open>AttributeError\<close> when the decoded body is no dict. After the test on the key set
  both subscripts find their key; the \<open>KeyError\<close> branches only make the definition
  total.
\<close>

definition request :: "'w service \<Rightarrow> pystr \<Rightarrow> (pystr \<times> json) list option \<Rightarrow> ('w, json) io" where
  "request srv act ps st =
     (let pl = \<lparr>action = act, version = 6,
                 params = (case ps of None \<Rightarrow> [] | Some p \<Rightarrow> p)\<rparr>;
          (r, a) = srv (app st) pl;
          st' = \<lparr>app = a, trace = trace st @ [Sent pl]\<rparr>
      in case r of
           URLError \<Rightarrow> (Inl (AnkiConnectError Not_reachable), st')
         | Raised x \<Rightarrow> (Inl (OtherError x), st')
         | Body response \<Rightarrow>
             (case response of
                JObj kvs \<Rightarrow>
                  if set (map fst kvs) \<noteq> {ascii ''result'', ascii ''error''}
                  then (Inl (AnkiConnectError (Invalid_response response)), st')
                  else (case map_of kvs (ascii ''error'') of
                          None \<Rightarrow> (Inl (KeyError (ascii ''error'')), st')
                        | Some JNull \<Rightarrow>
                            (case map_of kvs (ascii ''result'') of
                               None \<Rightarrow> (Inl (KeyError (ascii ''result'')), st')
                             | Some v \<Rightarrow> (Inr v, st'))
                        | Some e \<Rightarrow> (Inl (AnkiConnectError (Error_str e)), st'))
              | _ \<Rightarrow> (Inl AttributeError, st')))"

definition gui_current_card :: "'w service \<Rightarrow> ('w, json) io" where
  "gui_current_card srv = request srv (ascii ''guiCurrentCard'') None"

definition gui_show_answer :: "'w service \<Rightarrow> ('w, unit) io" where
  "gui_show_answer srv =
     bind_io (request srv (ascii ''guiShowAnswer'') None) (\<lambda>_. return_io ())"

definition gui_answer_card :: "'w service \<Rightarrow> int \<Rightarrow> ('w, unit) io" where
  "gui_answer_card srv ease =
     bind_io (request srv (ascii ''guiAnswerCard'') (Some [(ascii ''ease'', JInt ease)]))
       (\<lambda>_. return_io ())"

definition cards_info :: "'w service \<Rightarrow> json list \<Rightarrow> ('w, json) io" where
  "cards_info srv card_ids =
     request srv (ascii ''cardsInfo'') (Some [(ascii ''cards'', JArr card_ids)])"

section \<open>Text normalizer\<close>

text \<open>
  Modelled from the spec: the HTML parser and the tree it builds belong to the
  BeautifulSoup library, whose code is not part of the repository. The spec has the
  normalizer parse the HTML "into a structural tree", remove elements "as whole
  subtrees", turn every line-break element into a newline, put a newline after every
  paragraph element and flatten the tree "to its text content". The tree is
  therefore: a tag with its name, the class names of its \<open>class\<close> attribute (the
  source looks at no other attribute) and its children; a text node; and a node such
  as a comment or a doctype, which is no text content and which \<open>get_text\<close> leaves
  out.
\<close>

datatype node =
    Tag pystr "pystr list" "node list"
  | Str pystr
  | Special pystr

text \<open>
  The parser, \<open>BeautifulSoup(markup, "html.parser")\<close>, is a parameter of the model:
  it gives the children of the document root, or the message of the exception the
  library raises.
\<close>

type_synonym html_parser = "json \<Rightarrow> pystr + node list"

text \<open>
  \<open>find_all(name, class_=cls)\<close> selects, in the whole tree, the tags of that name
  that carry the class among their class names.
\<close>

fun has_class :: "pystr \<Rightarrow> pystr \<Rightarrow> node \<Rightarrow> bool" where
  "has_class nm cls (Tag n cs kids) = (n = nm \<and> cls \<in> set cs)"
| "has_class nm cls (Str s) = False"
| "has_class nm cls (Special s) = False"

text \<open>
  \<open>for x in soup.find_all(nm, class_=cls): x.decompose()\<close>. The tags are selected
  before the first is removed; each is removed with its subtree, so that a selected
  tag below another selected tag goes with it.
\<close>

fun decompose_all :: "pystr \<Rightarrow> pystr \<Rightarrow> node list \<Rightarrow> node list"
  and decompose_in :: "pystr \<Rightarrow> pystr \<Rightarrow> node \<Rightarrow> node" where
  "decompose_all nm cls [] = []"
| "decompose_all nm cls (x # xs) =
     (if has_class nm cls x then decompose_all nm cls xs
      else decompose_in nm cls x # decompose_all nm cls xs)"
| "decompose_in nm cls (Tag n cs kids) = Tag n cs (decompose_all nm cls kids)"
| "decompose_in nm cls (Str s) = Str s"
| "decompose_in nm cls (Special s) = Special s"

text \<open>
  \<open>for br in soup.find_all("br"): br.replace_with("\n")\<close> puts a text node holding a
  newline in the place of every \<open>br\<close> tag, whatever the tag contains.
\<close>

fun replace_br :: "node list \<Rightarrow> node list"
  and replace_br_in :: "node \<Rightarrow> node" where
  "replace_br [] = []"
| "replace_br (x # xs) = replace_br_in x # replace_br xs"
| "replace_br_in (Tag n cs kids) =
     (if n = ascii ''br'' then Str [10] else Tag n cs (replace_br kids))"
| "replace_br_in (Str s) = Str s"
| "replace_br_in (Special s) = Special s"

text \<open>
  \<open>for p in soup.find_all("p"): p.insert_after("\n")\<close> adds a text node holding a
  newline as the next sibling of every \<open>p\<close> tag.
\<close>

fun insert_after_p :: "node list \<Rightarrow> node list"
  and insert_after_p_in :: "node \<Rightarrow> node" where
  "insert_after_p [] = []"
| "insert_after_p (x # xs) =
     (case x of
        Tag n cs kids \<Rightarrow>
          (if n = ascii ''p'' then insert_after_p_in x # Str [10] # insert_after_p xs
           else insert_after_p_in x # insert_after_p xs)
      | _ \<Rightarrow> insert_after_p_in x # insert_after_p xs)"
| "insert_after_p_in (Tag n cs kids) = Tag n cs (insert_after_p kids)"
| "insert_after_p_in (Str s) = Str s"
| "insert_after_p_in (Special s) = Special s"

text \<open>\<open>soup.get_text()\<close>: the text nodes in document order, joined.\<close>

fun get_text :: "node list \<Rightarrow> pystr"
  and get_text_in :: "node \<Rightarrow> pystr" where
  "get_text [] = []"
| "get_text (x # xs) = get_text_in x @ get_text xs"
| "get_text_in (Tag n cs kids) = get_text kids"
| "get_text_in (Str s) = s"
| "get_text_in (Special s) = []"

text \<open>
  The characters \<open>str.strip()\<close> removes from both ends of a \<open>str\<close>: the code points
  for which \<open>str.isspace\<close> holds.
\<close>

definition is_space :: "nat \<Rightarrow> bool" where
  "is_space c \<longleftrightarrow>
     c \<in> {9, 10, 11, 12, 13, 28, 29, 30, 31, 32, 133, 160, 5760,
          8232, 8233, 8239, 8287, 12288} \<or> (8192 \<le> c \<and> c \<le> 8202)"

definition strip :: "pystr \<Rightarrow> pystr" where
  "strip s = rev (dropWhile is_space (rev (dropWhile is_space s)))"

text \<open>\<open>text.split("\n")\<close>: one more piece than there are newlines.\<close>

fun split_nl :: "pystr \<Rightarrow> pystr list" where
  "split_nl [] = [[]]"
| "split_nl (c # cs) =
     (if c = 10 then [] # split_nl cs
      else (case split_nl cs of
              [] \<Rightarrow> [[c]]
            | l # ls \<Rightarrow> (c # l) # ls))"

text \<open>\<open>"\n".join(lines)\<close>\<close>

fun join_nl :: "pystr list \<Rightarrow> pystr" where
  "join_nl [] = []"
| "join_nl [l] = l"
| "join_nl (l # ls) = l @ 10 # join_nl ls"

text \<open>\<open>_strip_html(html_content)\<close>\<close>

definition strip_html :: "html_parser \<Rightarrow> json \<Rightarrow> error + pystr" where
  "strip_html BeautifulSoup html_content =
     (if \<not> truthy html_content then Inr []
      else case BeautifulSoup html_content of
             Inl x \<Rightarrow> Inl (OtherError x)
           | Inr soup \<Rightarrow>
               (let soup = decompose_all (ascii ''div'') (ascii ''audio'') soup;
                    soup = decompose_all (ascii ''dl'') (ascii ''footnote'') soup;
                    soup = replace_br soup;
                    soup = insert_after_p soup;
                    text = get_text soup;
                    lines = map strip (split_nl text)
                in Inr (join_nl (filter (\<lambda>line. line \<noteq> []) lines))))"

text \<open>\<open>_strip_html\<close> applied to its own result.\<close>

definition strip_html_twice :: "html_parser \<Rightarrow> json \<Rightarrow> error + pystr" where
  "strip_html_twice BeautifulSoup html_content =
     (case strip_html BeautifulSoup html_content of
        Inl e \<Rightarrow> Inl e
      | Inr text \<Rightarrow> strip_html BeautifulSoup (JStr text))"

section \<open>Question formatter\<close>

text \<open>\<open>VOCAB_MODELS = ["Vocabulary", "Phrase"]\<close>\<close>

definition VOCAB_MODELS :: "json list" where
  "VOCAB_MODELS = [JStr (ascii ''Vocabulary''), JStr (ascii ''Phrase'')]"

text \<open>
  The two suffixes of the f-strings, as code points:
  a space followed by U+7684 U+82F1 U+6587 U+662F U+4EC0 U+4E48 U+FF1F, and
  a space followed by U+662F U+4EC0 U+4E48 U+610F U+601D U+FF1F.
\<close>

definition suffix_card2 :: pystr where
  "suffix_card2 = [32, 30340, 33521, 25991, 26159, 20160, 20040, 65311]"

definition suffix_card1 :: pystr where
  "suffix_card1 = [32, 26159, 20160, 20040, 24847, 24605, 65311]"

text \<open>
  \<open>_format_question(model_name, template, question_text)\<close>. The first two arguments
  are values read from the card, so any JSON value; \<open>in\<close> and \<open>==\<close> against the
  string literals hold for the equal string only.
\<close>

definition format_question :: "json \<Rightarrow> json \<Rightarrow> pystr \<Rightarrow> pystr" where
  "format_question model_name template question_text =
     (if model_name \<in> set VOCAB_MODELS then
        (if template = JStr (ascii ''card2'') then question_text @ suffix_card2
         else if template = JStr (ascii ''card1'') then question_text @ suffix_card1
         else question_text)
      else question_text)"

section \<open>Session orchestrator\<close>

text \<open>The dict a tool returns, with its keys in the order of the dict literal.\<close>

type_synonym view = "(pystr \<times> json) list"

text \<open>
  \<open>card.get(...)\<close> needs \<open>card\<close> to be a dict and raises \<open>AttributeError\<close> on any
  other JSON value; \<open>card[key]\<close> raises \<open>KeyError\<close> when the key is missing.
\<close>

definition as_dict :: "json \<Rightarrow> error + (pystr \<times> json) list" where
  "as_dict v = (case v of JObj d \<Rightarrow> Inr d | _ \<Rightarrow> Inl AttributeError)"

definition subscript :: "(pystr \<times> json) list \<Rightarrow> pystr \<Rightarrow> error + json" where
  "subscript d k = (case map_of d k of None \<Rightarrow> Inl (KeyError k) | Some v \<Rightarrow> Inr v)"

text \<open>
  \<open>_get_current_card_info()\<close>. The card id is read for the log line only, and the
  log lines are not part of the model.
\<close>

definition get_current_card_info :: "html_parser \<Rightarrow> 'w service \<Rightarrow> ('w, view) io" where
  "get_current_card_info BeautifulSoup srv =
     bind_io (gui_current_card srv) (\<lambda>card.
     bind_io (lift_io (as_dict card)) (\<lambda>card.
     bind_io (lift_io (subscript card (ascii ''modelName''))) (\<lambda>model_name.
     bind_io (lift_io (subscript card (ascii ''template''))) (\<lambda>template.
     bind_io (gui_show_answer srv) (\<lambda>_.
     bind_io (lift_io (strip_html BeautifulSoup
                (dict_get card (ascii ''question'') (JStr [])))) (\<lambda>original_question.
     bind_io (return_io (format_question model_name template original_question))
       (\<lambda>formatted_question.
     bind_io (lift_io (strip_html BeautifulSoup
                (dict_get card (ascii ''answer'') (JStr [])))) (\<lambda>answer.
     return_io
       [(ascii ''success'', JBool True),
        (ascii ''model_name'', model_name),
        (ascii ''template'', template),
        (ascii ''deck_name'', dict_get card (ascii ''deckName'') (JStr [])),
        (ascii ''question'', JStr formatted_question),
        (ascii ''answer'', JStr answer)]))))))))"

text \<open>\<open>start_learning()\<close>\<close>

definition start_learning :: "html_parser \<Rightarrow> 'w service \<Rightarrow> ('w, view) io" where
  "start_learning BeautifulSoup srv = get_current_card_info BeautifulSoup srv"

text \<open>\<open>time.sleep(seconds)\<close> leaves its mark in the trace.\<close>

definition sleep :: "nat \<Rightarrow> ('w, unit) io" where
  "sleep seconds st = (Inr (), st\<lparr>trace := trace st @ [Slept seconds]\<rparr>)"

text \<open>The dict returned when the card cannot be fetched after an answer.\<close>

definition deck_finished :: view where
  "deck_finished =
     [(ascii ''success'', JBool True),
      (ascii ''deck_finished'', JBool True),
      (ascii ''model_name'', JStr []),
      (ascii ''deck_name'', JStr []),
      (ascii ''question'', JStr []),
      (ascii ''answer'', JStr [])]"

text \<open>
  \<open>answer_and_get_next_card(ease)\<close>. The handler \<open>except AnkiConnectError\<close> covers
  the call of \<open>_get_current_card_info\<close> only.
\<close>

definition answer_and_get_next_card ::
  "html_parser \<Rightarrow> 'w service \<Rightarrow> int \<Rightarrow> ('w, view) io" where
  "answer_and_get_next_card BeautifulSoup srv ease st =
     (if ease \<notin> {1, 2, 3, 4} then (Inl (ValueError (ascii ''ease must be 1-4'')), st)
      else bind_io (gui_answer_card srv ease) (\<lambda>_.
           bind_io (sleep 1) (\<lambda>_ st2.
             (case get_current_card_info BeautifulSoup srv st2 of
                (Inl (AnkiConnectError m), st3) \<Rightarrow> (Inr deck_finished, st3)
              | r \<Rightarrow> r))) st)"

section \<open>Stand-ins for the two parameters\<close>

text \<open>
  To run the model, a service that answers from a prepared list of replies, one per
  request, and is out of reach once the list is used up.
\<close>

definition scripted :: "reply list service" where
  "scripted rs pl = (case rs of [] \<Rightarrow> (URLError, []) | r # rs' \<Rightarrow> (r, rs'))"

definition ok_reply :: "json \<Rightarrow> reply" where
  "ok_reply v = Body (JObj [(ascii ''result'', v), (ascii ''error'', JNull)])"

text \<open>
  And a small parser of start tags, end tags and text: enough to build the trees of
  the examples. It knows no attributes, comments or character references. A start tag
  of a void element has no children; an end tag closes the nearest open tag of its
  name and the tags opened inside it, and is dropped when there is none; tags still
  open at the end are closed there.
\<close>

datatype token =
    TData pystr
  | TStart pystr
  | TEnd pystr

definition tag_token :: "pystr \<Rightarrow> token" where
  "tag_token inside = (case inside of [] \<Rightarrow> TStart [] | c # cs \<Rightarrow>
     if c = 47 then TEnd cs else TStart inside)"

fun lex :: "bool \<Rightarrow> pystr \<Rightarrow> pystr \<Rightarrow> token list" where
  "lex in_tag acc [] =
     (if in_tag then [TData (60 # rev acc)]
      else if acc = [] then [] else [TData (rev acc)])"
| "lex in_tag acc (c # cs) =
     (if in_tag then
        (if c = 62 then tag_token (rev acc) # lex False [] cs
         else lex True (c # acc) cs)
      else
        (if c = 60 then (if acc = [] then [] else [TData (rev acc)]) @ lex True [] cs
         else lex False (c # acc) cs))"

definition void_tags :: "pystr list" where
  "void_tags = map ascii [''area'', ''base'', ''br'', ''col'', ''embed'', ''hr'', ''img'',
     ''input'', ''link'', ''meta'', ''param'', ''source'', ''track'', ''wbr'']"

fun close_tag :: "pystr \<Rightarrow> (pystr \<times> node list) list \<Rightarrow> node list \<Rightarrow>
    (pystr \<times> node list) list \<times> node list" where
  "close_tag n [] cur = ([], cur)"
| "close_tag n ((m, sibs) # stk) cur =
     (if m = n then (stk, Tag m [] (rev cur) # sibs)
      else close_tag n stk (Tag m [] (rev cur) # sibs))"

fun build :: "token list \<Rightarrow> (pystr \<times> node list) list \<Rightarrow> node list \<Rightarrow> node list" where
  "build [] [] cur = rev cur"
| "build [] ((m, sibs) # stk) cur = build [] stk (Tag m [] (rev cur) # sibs)"
| "build (TData s # ts) stk cur = build ts stk (Str s # cur)"
| "build (TStart n # ts) stk cur =
     (if n \<in> set void_tags then build ts stk (Tag n [] [] # cur)
      else build ts ((n, cur) # stk) [])"
| "build (TEnd n # ts) stk cur =
     (if n \<in> fst ` set stk
      then build ts (fst (close_tag n stk cur)) (snd (close_tag n stk cur))
      else build ts stk cur)"

definition tag_parser :: html_parser where
  "tag_parser markup =
     (case markup of
        JStr s \<Rightarrow> Inr (build (lex False [] s) [] [])
      | _ \<Rightarrow> Inl (ascii ''markup is no string''))"

text \<open>
  The library does not take every string: bs4 4.15.0 raises \<open>UnicodeEncodeError\<close>
  for the two-character markup made of \<open>w\<close> and the lone surrogate U+D800, while it
  parses the same two characters inside a \<open>b\<close> element. The second stand-in does
  the same: it refuses a short text without \<open><\<close> and without a newline that holds
  a surrogate (a code point from D800 to DFFF), and parses everything else as the
  first stand-in does.
\<close>

definition has_surrogate :: "pystr \<Rightarrow> bool" where
  "has_surrogate s = list_ex (\<lambda>c. 55296 \<le> c \<and> c \<le> 57343) s"

definition checking_parser :: html_parser where
  "checking_parser markup =
     (case markup of
        JStr s \<Rightarrow>
          if length s \<le> 256 \<and> 60 \<notin> set s \<and> 10 \<notin> set s \<and> has_surrogate s
          then Inl (ascii ''UnicodeEncodeError'')
          else tag_parser markup
      | _ \<Rightarrow> tag_parser markup)"

text \<open>The tree of \<open><p>Hello</p><br><p>World</p>\<close>.\<close>

definition hello_world_soup :: "node list" where
  "hello_world_soup =
     [Tag (ascii ''p'') [] [Str (ascii ''Hello'')],
      Tag (ascii ''br'') [] [],
      Tag (ascii ''p'') [] [Str (ascii ''World'')]]"

text \<open>A card as the application reports it, for the examples.\<close>

definition apple_card :: json where
  "apple_card = JObj
     [(ascii ''cardId'', JInt 1498938915662),
      (ascii ''modelName'', JStr (ascii ''Vocabulary'')),
      (ascii ''template'', JStr (ascii ''card1'')),
      (ascii ''deckName'', JStr (ascii ''Default'')),
      (ascii ''question'', JStr (ascii ''<p>apple</p>'')),
      (ascii ''answer'', JStr (ascii ''<b>a fruit</b><br>red or green''))]"

section \<open>Properties of the question formatter\<close>

lemma ascii_simps [simp]:
  "ascii [] = []"
  "ascii (c # cs) = of_char c # ascii cs"
  by (simp_all add: ascii_def)

text \<open>
  C7. For a model name in the vocabulary set, template \<open>card2\<close> appends the first suffix
  and template \<open>card1\<close> the second; every other combination of model and template
  returns the question text unchanged.
\<close>

theorem format_question_cases:
  "format_question m t q =
     (if (m = JStr (ascii ''Vocabulary'') \<or> m = JStr (ascii ''Phrase''))
         \<and> t = JStr (ascii ''card2'')
      then q @ [32, 30340, 33521, 25991, 26159, 20160, 20040, 65311]
      else if (m = JStr (ascii ''Vocabulary'') \<or> m = JStr (ascii ''Phrase''))
         \<and> t = JStr (ascii ''card1'')
      then q @ [32, 26159, 20160, 20040, 24847, 24605, 65311]
      else q)"
  by (auto simp: format_question_def VOCAB_MODELS_def suffix_card2_def suffix_card1_def)

text \<open>
  C10. Whatever the model name and the template, the formatted question starts with the
  question text it was given: the formatter only appends.
\<close>

theorem format_question_prefix:
  "take (length q) (format_question m t q) = q"
  by (simp add: format_question_def)

section \<open>Properties of the remote client and of the orchestrator\<close>

lemma request_trace:
  "trace (snd (request srv act ps st)) =
     trace st @ [Sent \<lparr>action = act, version = 6, params = (case ps of None \<Rightarrow> [] | Some p \<Rightarrow> p)\<rparr>]"
  by (simp add: request_def Let_def split: prod.splits reply.splits json.splits option.splits)

lemma bind_io_trace:
  assumes "\<And>st. \<exists>evs. trace (snd (m st)) = trace st @ evs"
      and "\<And>x st. \<exists>evs. trace (snd (f x st)) = trace st @ evs"
  shows "\<exists>evs. trace (snd (bind_io m f st)) = trace st @ evs"
proof (cases "m st")
  case (Pair r st1)
  from assms(1) [of st] Pair obtain evs1 where e1: "trace st1 = trace st @ evs1" by auto
  show ?thesis
  proof (cases r)
    case (Inl e)
    with Pair e1 show ?thesis by (simp add: bind_io_def)
  next
    case (Inr x)
    from assms(2) [of x st1] obtain evs2 where "trace (snd (f x st1)) = trace st1 @ evs2" by auto
    with Pair Inr e1 show ?thesis by (simp add: bind_io_def)
  qed
qed

lemma lift_io_trace: "\<exists>evs. trace (snd (lift_io r st)) = trace st @ evs"
  by (simp add: lift_io_def)

lemma return_io_trace: "\<exists>evs. trace (snd (return_io r st)) = trace st @ evs"
  by (simp add: return_io_def)

lemma request_trace_ex: "\<exists>evs. trace (snd (request srv act ps st)) = trace st @ evs"
  by (simp add: request_trace)

lemma get_current_card_info_trace:
  "\<exists>evs. trace (snd (get_current_card_info bs srv st)) = trace st @ evs"
  unfolding get_current_card_info_def gui_current_card_def gui_show_answer_def
  by (intro bind_io_trace lift_io_trace return_io_trace request_trace_ex)

lemma answer_rejected:
  "ease \<notin> {1, 2, 3, 4} \<Longrightarrow>
     answer_and_get_next_card bs srv ease st =
       (Inl (ValueError (ascii ''ease must be 1-4'')), st)"
  by (simp add: answer_and_get_next_card_def)

lemma answer_not_submitted:
  "ease \<in> {1, 2, 3, 4} \<Longrightarrow> gui_answer_card srv ease st = (Inl e, st1) \<Longrightarrow>
     answer_and_get_next_card bs srv ease st = (Inl e, st1)"
  by (simp add: answer_and_get_next_card_def bind_io_def)

lemma answer_submitted:
  "ease \<in> {1, 2, 3, 4} \<Longrightarrow> gui_answer_card srv ease st = (Inr u, st1) \<Longrightarrow>
     get_current_card_info bs srv (st1\<lparr>trace := trace st1 @ [Slept 1]\<rparr>) = (r, st3) \<Longrightarrow>
     answer_and_get_next_card bs srv ease st =
       (case r of Inl (AnkiConnectError m) \<Rightarrow> Inr deck_finished | _ \<Rightarrow> r, st3)"
  by (simp add: answer_and_get_next_card_def bind_io_def sleep_def
      split: sum.splits error.splits)

lemma gui_answer_card_trace:
  "gui_answer_card srv ease st = (r, st1) \<Longrightarrow>
     trace st1 = trace st @ [Sent \<lparr>action = ascii ''guiAnswerCard'', version = 6,
                                  params = [(ascii ''ease'', JInt ease)]\<rparr>]"
  using request_trace [of srv "ascii ''guiAnswerCard''" "Some [(ascii ''ease'', JInt ease)]" st]
  by (auto simp: gui_answer_card_def bind_io_def return_io_def split: prod.splits sum.splits)

lemma envelope_keys:
  assumes "set (map fst kvs) = {ascii ''result'', ascii ''error''}"
  shows "\<exists>v. map_of kvs (ascii ''result'') = Some v"
proof -
  from assms have "ascii ''result'' \<in> fst ` set kvs" by auto
  then show ?thesis
    by (metis domIff dom_map_of_conv_image_fst not_Some_eq)
qed

lemma gui_answer_card_reply:
  assumes "srv (app st) \<lparr>action = ascii ''guiAnswerCard'', version = 6,
              params = [(ascii ''ease'', JInt ease)]\<rparr> = (rep, a)"
  shows "gui_answer_card srv ease st =
     (case rep of
        URLError \<Rightarrow> Inl (AnkiConnectError Not_reachable)
      | Raised x \<Rightarrow> Inl (OtherError x)
      | Body response \<Rightarrow>
          (case response of
             JObj kvs \<Rightarrow>
               if set (map fst kvs) \<noteq> {ascii ''result'', ascii ''error''}
               then Inl (AnkiConnectError (Invalid_response response))
               else (case map_of kvs (ascii ''error'') of
                       None \<Rightarrow> Inl (KeyError (ascii ''error''))
                     | Some JNull \<Rightarrow>
                         (case map_of kvs (ascii ''result'') of
                            None \<Rightarrow> Inl (KeyError (ascii ''result''))
                          | Some v \<Rightarrow> Inr ())
                     | Some e \<Rightarrow> Inl (AnkiConnectError (Error_str e)))
           | _ \<Rightarrow> Inl AttributeError),
      \<lparr>app = a, trace = trace st @ [Sent \<lparr>action = ascii ''guiAnswerCard'', version = 6,
                                            params = [(ascii ''ease'', JInt ease)]\<rparr>]\<rparr>)"
  using assms
  by (simp add: gui_answer_card_def bind_io_def return_io_def request_def
      split: reply.splits json.splits option.splits)

text \<open>
  C3. An ease outside 1..4 makes \<open>answer_and_get_next_card\<close> raise the
  \<open>ValueError\<close> with the state as it was: no request has been issued and the
  application has not been touched. For an ease in 1..4 the call does not end that
  way: the next thing the program does is to send \<open>guiAnswerCard\<close> with that ease
  to the service, and what follows is decided by the reply of the service to that
  request and goes on from the application state the service returned. An
  unreachable service, another exception of the transport, a malformed envelope or an
  error reported by the application ends the call with that exception; on a reply
  without error the program pauses and fetches the current card, from the new state.
\<close>

theorem ease_validation:
  "(ease \<notin> {1, 2, 3, 4} \<longrightarrow>
      answer_and_get_next_card bs srv ease st =
        (Inl (ValueError (ascii ''ease must be 1-4'')), st))
   \<and> (ease \<in> {1, 2, 3, 4} \<longrightarrow>
      answer_and_get_next_card bs srv ease st \<noteq>
        (Inl (ValueError (ascii ''ease must be 1-4'')), st)
      \<and> (\<exists>evs. trace (snd (answer_and_get_next_card bs srv ease st)) =
            trace st @ Sent \<lparr>action = ascii ''guiAnswerCard'', version = 6,
                               params = [(ascii ''ease'', JInt ease)]\<rparr> # evs)
      \<and> (\<forall>rep a.
            srv (app st) \<lparr>action = ascii ''guiAnswerCard'', version = 6,
                            params = [(ascii ''ease'', JInt ease)]\<rparr> = (rep, a) \<longrightarrow>
            (rep = URLError \<longrightarrow>
               answer_and_get_next_card bs srv ease st =
                 (Inl (AnkiConnectError Not_reachable),
                  \<lparr>app = a,
                    trace = trace st @ [Sent \<lparr>action = ascii ''guiAnswerCard'', version = 6,
                                              params = [(ascii ''ease'', JInt ease)]\<rparr>]\<rparr>))
          \<and> (\<forall>x. rep = Raised x \<longrightarrow>
               answer_and_get_next_card bs srv ease st =
                 (Inl (OtherError x),
                  \<lparr>app = a,
                    trace = trace st @ [Sent \<lparr>action = ascii ''guiAnswerCard'', version = 6,
                                              params = [(ascii ''ease'', JInt ease)]\<rparr>]\<rparr>))
          \<and> (\<forall>kvs. rep = Body (JObj kvs)
                 \<and> set (map fst kvs) \<noteq> {ascii ''result'', ascii ''error''} \<longrightarrow>
               answer_and_get_next_card bs srv ease st =
                 (Inl (AnkiConnectError (Invalid_response (JObj kvs))),
                  \<lparr>app = a,
                    trace = trace st @ [Sent \<lparr>action = ascii ''guiAnswerCard'', version = 6,
                                              params = [(ascii ''ease'', JInt ease)]\<rparr>]\<rparr>))
          \<and> (\<forall>kvs e. rep = Body (JObj kvs)
                 \<and> set (map fst kvs) = {ascii ''result'', ascii ''error''}
                 \<and> map_of kvs (ascii ''error'') = Some e \<and> e \<noteq> JNull \<longrightarrow>
               answer_and_get_next_card bs srv ease st =
                 (Inl (AnkiConnectError (Error_str e)),
                  \<lparr>app = a,
                    trace = trace st @ [Sent \<lparr>action = ascii ''guiAnswerCard'', version = 6,
                                              params = [(ascii ''ease'', JInt ease)]\<rparr>]\<rparr>))
          \<and> (\<forall>kvs. rep = Body (JObj kvs)
                 \<and> set (map fst kvs) = {ascii ''result'', ascii ''error''}
                 \<and> map_of kvs (ascii ''error'') = Some JNull \<longrightarrow>
               answer_and_get_next_card bs srv ease st =
                 (case get_current_card_info bs srv
                         \<lparr>app = a,
                           trace = trace st @
                             [Sent \<lparr>action = ascii ''guiAnswerCard'', version = 6,
                                    params = [(ascii ''ease'', JInt ease)]\<rparr>, Slept 1]\<rparr> of
                    (Inl (AnkiConnectError m), st3) \<Rightarrow> (Inr deck_finished, st3)
                  | r \<Rightarrow> r))))"
proof (intro conjI impI allI)
  assume "ease \<notin> {1, 2, 3, 4}"
  then show "answer_and_get_next_card bs srv ease st =
      (Inl (ValueError (ascii ''ease must be 1-4'')), st)"
    by (rule answer_rejected)
next
  assume valid: "ease \<in> {1, 2, 3, 4}"
  let ?pl = "\<lparr>action = ascii ''guiAnswerCard'', version = 6,
               params = [(ascii ''ease'', JInt ease)]\<rparr>"
  obtain r st1 where ans: "gui_answer_card srv ease st = (r, st1)"
    by (cases "gui_answer_card srv ease st")
  have t1: "trace st1 = trace st @ [Sent ?pl]"
    using ans by (rule gui_answer_card_trace)
  show sent: "\<exists>evs. trace (snd (answer_and_get_next_card bs srv ease st)) =
      trace st @ Sent ?pl # evs"
  proof (cases r)
    case (Inl e)
    with valid ans t1 show ?thesis by (simp add: answer_not_submitted)
  next
    case (Inr u)
    let ?st2 = "st1\<lparr>trace := trace st1 @ [Slept 1]\<rparr>"
    obtain r3 st3 where g: "get_current_card_info bs srv ?st2 = (r3, st3)"
      by (cases "get_current_card_info bs srv ?st2")
    obtain evs where ev: "trace st3 = trace ?st2 @ evs"
      using get_current_card_info_trace [of bs srv ?st2] g by auto
    have "snd (answer_and_get_next_card bs srv ease st) = st3"
      using answer_submitted [OF valid ans [unfolded Inr] g] by simp
    with ev t1 show ?thesis by simp
  qed
  show "answer_and_get_next_card bs srv ease st \<noteq>
      (Inl (ValueError (ascii ''ease must be 1-4'')), st)"
  proof
    assume "answer_and_get_next_card bs srv ease st =
      (Inl (ValueError (ascii ''ease must be 1-4'')), st)"
    with sent show False by simp
  qed
next
  fix rep a
  assume valid: "ease \<in> {1, 2, 3, 4}"
    and srv: "srv (app st) \<lparr>action = ascii ''guiAnswerCard'', version = 6,
                params = [(ascii ''ease'', JInt ease)]\<rparr> = (rep, a)"
    and rep: "rep = URLError"
  from gui_answer_card_reply [where srv = srv and st = st and ease = ease and rep = rep and a = a, OF srv] rep valid
  show "answer_and_get_next_card bs srv ease st =
      (Inl (AnkiConnectError Not_reachable),
       \<lparr>app = a, trace = trace st @ [Sent \<lparr>action = ascii ''guiAnswerCard'', version = 6,
                                             params = [(ascii ''ease'', JInt ease)]\<rparr>]\<rparr>)"
    by (simp add: answer_not_submitted)
next
  fix rep a x
  assume valid: "ease \<in> {1, 2, 3, 4}"
    and srv: "srv (app st) \<lparr>action = ascii ''guiAnswerCard'', version = 6,
                params = [(ascii ''ease'', JInt ease)]\<rparr> = (rep, a)"
    and rep: "rep = Raised x"
  from gui_answer_card_reply [where srv = srv and st = st and ease = ease and rep = rep and a = a, OF srv] rep valid
  show "answer_and_get_next_card bs srv ease st =
      (Inl (OtherError x),
       \<lparr>app = a, trace = trace st @ [Sent \<lparr>action = ascii ''guiAnswerCard'', version = 6,
                                             params = [(ascii ''ease'', JInt ease)]\<rparr>]\<rparr>)"
    by (simp add: answer_not_submitted)
next
  fix rep a kvs
  assume valid: "ease \<in> {1, 2, 3, 4}"
    and srv: "srv (app st) \<lparr>action = ascii ''guiAnswerCard'', version = 6,
                params = [(ascii ''ease'', JInt ease)]\<rparr> = (rep, a)"
    and rep: "rep = Body (JObj kvs)
                 \<and> set (map fst kvs) \<noteq> {ascii ''result'', ascii ''error''}"
  from gui_answer_card_reply [where srv = srv and st = st and ease = ease and rep = rep and a = a, OF srv] rep valid
  show "answer_and_get_next_card bs srv ease st =
      (Inl (AnkiConnectError (Invalid_response (JObj kvs))),
       \<lparr>app = a, trace = trace st @ [Sent \<lparr>action = ascii ''guiAnswerCard'', version = 6,
                                             params = [(ascii ''ease'', JInt ease)]\<rparr>]\<rparr>)"
    by (simp add: answer_not_submitted)
next
  fix rep a kvs e
  assume valid: "ease \<in> {1, 2, 3, 4}"
    and srv: "srv (app st) \<lparr>action = ascii ''guiAnswerCard'', version = 6,
                params = [(ascii ''ease'', JInt ease)]\<rparr> = (rep, a)"
    and rep: "rep = Body (JObj kvs)
                 \<and> set (map fst kvs) = {ascii ''result'', ascii ''error''}
                 \<and> map_of kvs (ascii ''error'') = Some e \<and> e \<noteq> JNull"
  from rep have "gui_answer_card srv ease st =
      (Inl (AnkiConnectError (Error_str e)),
       \<lparr>app = a, trace = trace st @ [Sent \<lparr>action = ascii ''guiAnswerCard'', version = 6,
                                             params = [(ascii ''ease'', JInt ease)]\<rparr>]\<rparr>)"
    by (cases e) (simp_all add: gui_answer_card_reply [where srv = srv and st = st and ease = ease and rep = rep and a = a, OF srv])
  with valid show "answer_and_get_next_card bs srv ease st =
      (Inl (AnkiConnectError (Error_str e)),
       \<lparr>app = a, trace = trace st @ [Sent \<lparr>action = ascii ''guiAnswerCard'', version = 6,
                                             params = [(ascii ''ease'', JInt ease)]\<rparr>]\<rparr>)"
    by (rule answer_not_submitted)
next
  fix rep a kvs
  assume valid: "ease \<in> {1, 2, 3, 4}"
    and srv: "srv (app st) \<lparr>action = ascii ''guiAnswerCard'', version = 6,
                params = [(ascii ''ease'', JInt ease)]\<rparr> = (rep, a)"
    and rep: "rep = Body (JObj kvs)
                 \<and> set (map fst kvs) = {ascii ''result'', ascii ''error''}
                 \<and> map_of kvs (ascii ''error'') = Some JNull"
  let ?pl = "\<lparr>action = ascii ''guiAnswerCard'', version = 6,
               params = [(ascii ''ease'', JInt ease)]\<rparr>"
  let ?st1 = "\<lparr>app = a, trace = trace st @ [Sent ?pl]\<rparr>"
  let ?st2 = "\<lparr>app = a, trace = trace st @ [Sent ?pl, Slept 1]\<rparr>"
  from rep obtain v where "map_of kvs (ascii ''result'') = Some v"
    using envelope_keys by blast
  with rep have ans: "gui_answer_card srv ease st = (Inr (), ?st1)"
    by (simp add: gui_answer_card_reply [where srv = srv and st = st and ease = ease and rep = rep and a = a, OF srv])
  have st2: "?st1\<lparr>trace := trace ?st1 @ [Slept 1]\<rparr> = ?st2" by simp
  obtain r3 st3 where g: "get_current_card_info bs srv ?st2 = (r3, st3)"
    by (cases "get_current_card_info bs srv ?st2")
  then have g': "get_current_card_info bs srv (?st1\<lparr>trace := trace ?st1 @ [Slept 1]\<rparr>) =
      (r3, st3)"
    by (simp only: st2)
  have "answer_and_get_next_card bs srv ease st =
      (case r3 of Inl (AnkiConnectError m) \<Rightarrow> Inr deck_finished | _ \<Rightarrow> r3, st3)"
    using valid ans g' by (rule answer_submitted)
  with g show "answer_and_get_next_card bs srv ease st =
      (case get_current_card_info bs srv ?st2 of
         (Inl (AnkiConnectError m), st3) \<Rightarrow> (Inr deck_finished, st3)
       | r \<Rightarrow> r)"
    by (simp split: sum.splits error.splits)
qed

theorem ease_validation_witness:
  "answer_and_get_next_card tag_parser scripted 5 \<lparr>app = [ok_reply JNull], trace = []\<rparr> =
     (Inl (ValueError (ascii ''ease must be 1-4'')), \<lparr>app = [ok_reply JNull], trace = []\<rparr>)
   \<and> answer_and_get_next_card tag_parser scripted 3 \<lparr>app = [URLError], trace = []\<rparr> =
     (Inl (AnkiConnectError Not_reachable),
      \<lparr>app = [],
        trace = [Sent \<lparr>action = ascii ''guiAnswerCard'', version = 6,
                       params = [(ascii ''ease'', JInt 3)]\<rparr>]\<rparr>)
   \<and> answer_and_get_next_card tag_parser scripted 3 \<lparr>app = [ok_reply JNull], trace = []\<rparr> =
     (Inr deck_finished,
      \<lparr>app = [],
        trace = [Sent \<lparr>action = ascii ''guiAnswerCard'', version = 6,
                       params = [(ascii ''ease'', JInt 3)]\<rparr>,
                 Slept 1,
                 Sent \<lparr>action = ascii ''guiCurrentCard'', version = 6, params = []\<rparr>]\<rparr>)"
proof -
  have refetch: "get_current_card_info tag_parser scripted
      \<lparr>app = [],
        trace = [Sent \<lparr>action = ascii ''guiAnswerCard'', version = 6,
                       params = [(ascii ''ease'', JInt 3)]\<rparr>, Slept 1]\<rparr> =
      (Inl (AnkiConnectError Not_reachable),
       \<lparr>app = [],
         trace = [Sent \<lparr>action = ascii ''guiAnswerCard'', version = 6,
                        params = [(ascii ''ease'', JInt 3)]\<rparr>,
                  Slept 1,
                  Sent \<lparr>action = ascii ''guiCurrentCard'', version = 6, params = []\<rparr>]\<rparr>)"
    by (simp add: get_current_card_info_def gui_current_card_def bind_io_def request_def
        scripted_def)
  show ?thesis
    using ease_validation [of 5 tag_parser scripted "\<lparr>app = [ok_reply JNull], trace = []\<rparr>"]
      ease_validation [of 3 tag_parser scripted "\<lparr>app = [URLError], trace = []\<rparr>"]
      ease_validation [of 3 tag_parser scripted "\<lparr>app = [ok_reply JNull], trace = []\<rparr>"]
      refetch
    by (simp add: scripted_def ok_reply_def)
qed

lemma gcci_fetch_fails:
  "request srv (ascii ''guiCurrentCard'') None st = (Inl e, st1) \<Longrightarrow>
     get_current_card_info bs srv st = (Inl e, st1)"
  by (simp add: get_current_card_info_def gui_current_card_def bind_io_def)

lemma gcci_no_model_name:
  "request srv (ascii ''guiCurrentCard'') None st = (Inr (JObj c), st1) \<Longrightarrow>
     map_of c (ascii ''modelName'') = None \<Longrightarrow>
     get_current_card_info bs srv st = (Inl (KeyError (ascii ''modelName'')), st1)"
  by (simp add: get_current_card_info_def gui_current_card_def bind_io_def lift_io_def
        as_dict_def subscript_def)

lemma gcci_no_template:
  "request srv (ascii ''guiCurrentCard'') None st = (Inr (JObj c), st1) \<Longrightarrow>
     map_of c (ascii ''modelName'') = Some m \<Longrightarrow>
     map_of c (ascii ''template'') = None \<Longrightarrow>
     get_current_card_info bs srv st = (Inl (KeyError (ascii ''template'')), st1)"
  by (simp add: get_current_card_info_def gui_current_card_def bind_io_def lift_io_def
        as_dict_def subscript_def)

lemma gcci_show_fails:
  "request srv (ascii ''guiCurrentCard'') None st = (Inr (JObj c), st1) \<Longrightarrow>
     map_of c (ascii ''modelName'') = Some m \<Longrightarrow>
     map_of c (ascii ''template'') = Some t \<Longrightarrow>
     request srv (ascii ''guiShowAnswer'') None st1 = (Inl e, st2) \<Longrightarrow>
     get_current_card_info bs srv st = (Inl e, st2)"
  by (simp add: get_current_card_info_def gui_current_card_def gui_show_answer_def
        bind_io_def lift_io_def as_dict_def subscript_def)

lemma gcci_shown:
  "request srv (ascii ''guiCurrentCard'') None st = (Inr (JObj c), st1) \<Longrightarrow>
     map_of c (ascii ''modelName'') = Some m \<Longrightarrow>
     map_of c (ascii ''template'') = Some t \<Longrightarrow>
     request srv (ascii ''guiShowAnswer'') None st1 = (Inr v, st2) \<Longrightarrow>
     get_current_card_info bs srv st =
       (case strip_html bs (dict_get c (ascii ''question'') (JStr [])) of
          Inl e \<Rightarrow> (Inl e, st2)
        | Inr q \<Rightarrow>
            (case strip_html bs (dict_get c (ascii ''answer'') (JStr [])) of
               Inl e \<Rightarrow> (Inl e, st2)
             | Inr a \<Rightarrow>
                 (Inr [(ascii ''success'', JBool True),
                       (ascii ''model_name'', m),
                       (ascii ''template'', t),
                       (ascii ''deck_name'', dict_get c (ascii ''deckName'') (JStr [])),
                       (ascii ''question'', JStr (format_question m t q)),
                       (ascii ''answer'', JStr a)], st2)))"
  by (simp add: get_current_card_info_def gui_current_card_def gui_show_answer_def
        bind_io_def lift_io_def return_io_def as_dict_def subscript_def split: sum.splits)

lemma gcci_view:
  assumes "get_current_card_info bs srv st = (Inr v, st')"
  shows "\<exists>m t d q a. v = [(ascii ''success'', JBool True), (ascii ''model_name'', m),
           (ascii ''template'', t), (ascii ''deck_name'', d),
           (ascii ''question'', JStr q), (ascii ''answer'', JStr a)]"
  using assms
  by (auto simp: get_current_card_info_def bind_io_def lift_io_def return_io_def
      split: prod.splits sum.splits)


text \<open>
  C4. When the decoded body is a mapping, \<open>_request\<close> raises exactly if the key set
  is not \<open>{result, error}\<close> or the value under \<open>error\<close> is not null. In the first
  case the exception is the \<open>AnkiConnectError\<close> that carries the whole payload, in the
  second the one that carries \<open>str\<close> of the error value; otherwise the value under
  \<open>result\<close> is returned.
\<close>

theorem request_envelope:
  assumes "srv (app st) \<lparr>action = act, version = 6,
              params = (case ps of None \<Rightarrow> [] | Some p \<Rightarrow> p)\<rparr> = (Body (JObj kvs), a)"
  shows "((\<exists>e. fst (request srv act ps st) = Inl e) \<longleftrightarrow>
            set (map fst kvs) \<noteq> {ascii ''result'', ascii ''error''}
            \<or> map_of kvs (ascii ''error'') \<noteq> Some JNull)
       \<and> (set (map fst kvs) \<noteq> {ascii ''result'', ascii ''error''} \<longrightarrow>
            fst (request srv act ps st) =
              Inl (AnkiConnectError (Invalid_response (JObj kvs))))
       \<and> (set (map fst kvs) = {ascii ''result'', ascii ''error''} \<longrightarrow>
            (\<exists>e v. map_of kvs (ascii ''error'') = Some e
                 \<and> map_of kvs (ascii ''result'') = Some v
                 \<and> fst (request srv act ps st) =
                     (if e \<noteq> JNull then Inl (AnkiConnectError (Error_str e)) else Inr v)))"
proof -
  have keys: "\<exists>e v. map_of kvs (ascii ''error'') = Some e \<and> map_of kvs (ascii ''result'') = Some v"
    if "set (map fst kvs) = {ascii ''result'', ascii ''error''}"
  proof -
    from that have "ascii ''error'' \<in> fst ` set kvs" and "ascii ''result'' \<in> fst ` set kvs"
      by auto
    then show ?thesis
      by (metis domIff dom_map_of_conv_image_fst not_Some_eq)
  qed
  show ?thesis
  proof (cases "set (map fst kvs) = {ascii ''result'', ascii ''error''}")
    case False
    with assms show ?thesis
      by (simp add: request_def)
  next
    case True
    from keys [OF True] obtain e v
      where "map_of kvs (ascii ''error'') = Some e" "map_of kvs (ascii ''result'') = Some v"
      by blast
    with assms True show ?thesis
      by (cases e) (simp_all add: request_def)
  qed
qed

theorem request_envelope_witness:
  "fst (request scripted (ascii ''guiCurrentCard'') None
          \<lparr>app = [ok_reply (JInt 7)], trace = []\<rparr>) = Inr (JInt 7)
   \<and> fst (request scripted (ascii ''guiCurrentCard'') None
          \<lparr>app = [Body (JObj [(ascii ''result'', JNull), (ascii ''error'', JStr (ascii ''no card''))])],
           trace = []\<rparr>) = Inl (AnkiConnectError (Error_str (JStr (ascii ''no card''))))
   \<and> fst (request scripted (ascii ''guiCurrentCard'') None
          \<lparr>app = [Body (JObj [(ascii ''result'', JNull)])], trace = []\<rparr>) =
       Inl (AnkiConnectError (Invalid_response (JObj [(ascii ''result'', JNull)])))"
  using
    request_envelope [where srv = scripted and act = "ascii ''guiCurrentCard''" and ps = None
      and st = "\<lparr>app = [ok_reply (JInt 7)], trace = []\<rparr>"
      and kvs = "[(ascii ''result'', JInt 7), (ascii ''error'', JNull)]" and a = "[]"]
    request_envelope [where srv = scripted and act = "ascii ''guiCurrentCard''" and ps = None
      and st = "\<lparr>app = [Body (JObj [(ascii ''result'', JNull),
                 (ascii ''error'', JStr (ascii ''no card''))])], trace = []\<rparr>"
      and kvs = "[(ascii ''result'', JNull), (ascii ''error'', JStr (ascii ''no card''))]"
      and a = "[]"]
    request_envelope [where srv = scripted and act = "ascii ''guiCurrentCard''" and ps = None
      and st = "\<lparr>app = [Body (JObj [(ascii ''result'', JNull)])], trace = []\<rparr>"
      and kvs = "[(ascii ''result'', JNull)]" and a = "[]"]
  by (simp add: scripted_def ok_reply_def)

lemma gcci_not_finished:
  "fst (get_current_card_info bs srv st) \<noteq> Inr deck_finished"
proof
  assume "fst (get_current_card_info bs srv st) = Inr deck_finished"
  then have "get_current_card_info bs srv st =
      (Inr deck_finished, snd (get_current_card_info bs srv st))"
    by (metis prod.collapse)
  from gcci_view [OF this] show False
    by (simp add: deck_finished_def)
qed

text \<open>
  C5. \<open>start_learning\<close> first requests the current card; if that request raises,
  the exception reaches the caller as it is. For a card that has its model name and
  its template it then requests the answer to be shown, so that the two requests
  stand in the trace in this order; an exception of the second request reaches the
  caller as it is. When both succeed the result is the view with \<open>success\<close> true,
  whose question is the formatter applied to the normalized question and whose answer
  is the normalized answer. In no case is the result the deck-finished view.
\<close>

theorem start_learning_steps:
  assumes "request srv (ascii ''guiCurrentCard'') None st = (r1, st1)"
      and "request srv (ascii ''guiShowAnswer'') None st1 = (r2, st2)"
  shows "(\<forall>e. r1 = Inl e \<longrightarrow> start_learning bs srv st = (Inl e, st1))
     \<and> (\<forall>c m t. r1 = Inr (JObj c) \<and> map_of c (ascii ''modelName'') = Some m
                 \<and> map_of c (ascii ''template'') = Some t \<longrightarrow>
          trace st2 = trace st @
            [Sent \<lparr>action = ascii ''guiCurrentCard'', version = 6, params = []\<rparr>,
             Sent \<lparr>action = ascii ''guiShowAnswer'', version = 6, params = []\<rparr>]
          \<and> (\<forall>e. r2 = Inl e \<longrightarrow> start_learning bs srv st = (Inl e, st2))
          \<and> (\<forall>v q a. r2 = Inr v
                  \<and> strip_html bs (dict_get c (ascii ''question'') (JStr [])) = Inr q
                  \<and> strip_html bs (dict_get c (ascii ''answer'') (JStr [])) = Inr a \<longrightarrow>
                start_learning bs srv st =
                  (Inr [(ascii ''success'', JBool True),
                        (ascii ''model_name'', m),
                        (ascii ''template'', t),
                        (ascii ''deck_name'', dict_get c (ascii ''deckName'') (JStr [])),
                        (ascii ''question'', JStr (format_question m t q)),
                        (ascii ''answer'', JStr a)], st2)))
     \<and> fst (start_learning bs srv st) \<noteq> Inr deck_finished"
proof (intro conjI allI impI)
  fix e assume "r1 = Inl e"
  with assms(1) show "start_learning bs srv st = (Inl e, st1)"
    by (simp add: start_learning_def gcci_fetch_fails)
next
  fix c m t
  assume "r1 = Inr (JObj c) \<and> map_of c (ascii ''modelName'') = Some m
                 \<and> map_of c (ascii ''template'') = Some t"
  show "trace st2 = trace st @
            [Sent \<lparr>action = ascii ''guiCurrentCard'', version = 6, params = []\<rparr>,
             Sent \<lparr>action = ascii ''guiShowAnswer'', version = 6, params = []\<rparr>]"
    using request_trace [of srv "ascii ''guiCurrentCard''" None st]
      request_trace [of srv "ascii ''guiShowAnswer''" None st1] assms
    by simp
next
  fix c m t e
  assume "r1 = Inr (JObj c) \<and> map_of c (ascii ''modelName'') = Some m
                 \<and> map_of c (ascii ''template'') = Some t" and "r2 = Inl e"
  with assms show "start_learning bs srv st = (Inl e, st2)"
    by (simp add: start_learning_def gcci_show_fails)
next
  fix c m t v q a
  assume "r1 = Inr (JObj c) \<and> map_of c (ascii ''modelName'') = Some m
                 \<and> map_of c (ascii ''template'') = Some t"
    and "r2 = Inr v
                  \<and> strip_html bs (dict_get c (ascii ''question'') (JStr [])) = Inr q
                  \<and> strip_html bs (dict_get c (ascii ''answer'') (JStr [])) = Inr a"
  with assms show "start_learning bs srv st =
                  (Inr [(ascii ''success'', JBool True),
                        (ascii ''model_name'', m),
                        (ascii ''template'', t),
                        (ascii ''deck_name'', dict_get c (ascii ''deckName'') (JStr [])),
                        (ascii ''question'', JStr (format_question m t q)),
                        (ascii ''answer'', JStr a)], st2)"
    by (simp add: start_learning_def gcci_shown [where c = c and m = m and t = t and v = v])
next
  show "fst (start_learning bs srv st) \<noteq> Inr deck_finished"
    by (simp add: start_learning_def gcci_not_finished)
qed


lemma strip_html_apple_question:
  "strip_html tag_parser (JStr (ascii ''<p>apple</p>'')) = Inr (ascii ''apple'')"
  by (simp add: strip_html_def tag_parser_def tag_token_def void_tags_def strip_def is_space_def)

lemma strip_html_apple_answer:
  "strip_html tag_parser (JStr (ascii ''<b>a fruit</b><br>red or green'')) =
     Inr (ascii ''a fruit'' @ 10 # ascii ''red or green'')"
  by (simp add: strip_html_def tag_parser_def tag_token_def void_tags_def strip_def is_space_def)

theorem start_learning_steps_witness:
  "start_learning tag_parser scripted
      \<lparr>app = [ok_reply apple_card, ok_reply JNull], trace = []\<rparr> =
     (Inr [(ascii ''success'', JBool True),
           (ascii ''model_name'', JStr (ascii ''Vocabulary'')),
           (ascii ''template'', JStr (ascii ''card1'')),
           (ascii ''deck_name'', JStr (ascii ''Default'')),
           (ascii ''question'', JStr (ascii ''apple'' @ suffix_card1)),
           (ascii ''answer'', JStr (ascii ''a fruit'' @ 10 # ascii ''red or green''))],
      \<lparr>app = [],
        trace = [Sent \<lparr>action = ascii ''guiCurrentCard'', version = 6, params = []\<rparr>,
                 Sent \<lparr>action = ascii ''guiShowAnswer'', version = 6, params = []\<rparr>]\<rparr>)"
proof -
  let ?st = "\<lparr>app = [ok_reply apple_card, ok_reply JNull], trace = []\<rparr>"
  let ?st1 = "\<lparr>app = [ok_reply JNull],
    trace = [Sent \<lparr>action = ascii ''guiCurrentCard'', version = 6, params = []\<rparr>]\<rparr>"
  let ?st2 = "\<lparr>app = [],
    trace = [Sent \<lparr>action = ascii ''guiCurrentCard'', version = 6, params = []\<rparr>,
             Sent \<lparr>action = ascii ''guiShowAnswer'', version = 6, params = []\<rparr>]\<rparr>"
  have r1: "request scripted (ascii ''guiCurrentCard'') None ?st = (Inr apple_card, ?st1)"
    by (simp add: request_def scripted_def ok_reply_def)
  have r2: "request scripted (ascii ''guiShowAnswer'') None ?st1 = (Inr JNull, ?st2)"
    by (simp add: request_def scripted_def ok_reply_def)
  show ?thesis
    using start_learning_steps [OF r1 r2, of tag_parser]
      strip_html_apple_question strip_html_apple_answer
    by (simp add: apple_card_def dict_get_def format_question_def VOCAB_MODELS_def)
qed


text \<open>
  C2, as amended. Once the current card has arrived as a mapping, of its fields
  \<open>deckName\<close>, \<open>question\<close> and \<open>answer\<close> are read with a default: where one of
  them is missing the empty string stands in for it (an empty deck name, the formatter
  applied to the empty question, an empty answer) and no exception is raised for it.
  \<open>modelName\<close> and \<open>template\<close> are read by subscript: a card without one of them
  makes \<open>_get_current_card_info\<close> raise \<open>KeyError\<close> before the answer is shown.
\<close>

theorem card_fields_read:
  assumes "request srv (ascii ''guiCurrentCard'') None st = (Inr (JObj c), st1)"
  shows "(map_of c (ascii ''modelName'') = None \<longrightarrow>
            get_current_card_info bs srv st = (Inl (KeyError (ascii ''modelName'')), st1))
     \<and> (map_of c (ascii ''modelName'') \<noteq> None \<and> map_of c (ascii ''template'') = None \<longrightarrow>
            get_current_card_info bs srv st = (Inl (KeyError (ascii ''template'')), st1))
     \<and> (\<forall>m t v st2 q a.
            map_of c (ascii ''modelName'') = Some m \<and> map_of c (ascii ''template'') = Some t
            \<and> request srv (ascii ''guiShowAnswer'') None st1 = (Inr v, st2)
            \<and> (case map_of c (ascii ''question'') of
                  None \<Rightarrow> Inr [] | Some h \<Rightarrow> strip_html bs h) = Inr q
            \<and> (case map_of c (ascii ''answer'') of
                  None \<Rightarrow> Inr [] | Some h \<Rightarrow> strip_html bs h) = Inr a \<longrightarrow>
            get_current_card_info bs srv st =
              (Inr [(ascii ''success'', JBool True),
                    (ascii ''model_name'', m),
                    (ascii ''template'', t),
                    (ascii ''deck_name'',
                       case map_of c (ascii ''deckName'') of None \<Rightarrow> JStr [] | Some d \<Rightarrow> d),
                    (ascii ''question'', JStr (format_question m t q)),
                    (ascii ''answer'', JStr a)], st2))"
proof (intro conjI allI impI)
  assume "map_of c (ascii ''modelName'') = None"
  with assms show "get_current_card_info bs srv st = (Inl (KeyError (ascii ''modelName'')), st1)"
    by (rule gcci_no_model_name)
next
  assume "map_of c (ascii ''modelName'') \<noteq> None \<and> map_of c (ascii ''template'') = None"
  then obtain m where "map_of c (ascii ''modelName'') = Some m"
    and "map_of c (ascii ''template'') = None"
    by auto
  with assms show "get_current_card_info bs srv st = (Inl (KeyError (ascii ''template'')), st1)"
    by (rule gcci_no_template)
next
  fix m t v st2 q a
  assume h: "map_of c (ascii ''modelName'') = Some m \<and> map_of c (ascii ''template'') = Some t
            \<and> request srv (ascii ''guiShowAnswer'') None st1 = (Inr v, st2)
            \<and> (case map_of c (ascii ''question'') of
                  None \<Rightarrow> Inr [] | Some h \<Rightarrow> strip_html bs h) = Inr q
            \<and> (case map_of c (ascii ''answer'') of
                  None \<Rightarrow> Inr [] | Some h \<Rightarrow> strip_html bs h) = Inr a"
  have dflt: "strip_html bs (dict_get c k (JStr [])) =
      (case map_of c k of None \<Rightarrow> Inr [] | Some h \<Rightarrow> strip_html bs h)" for k
    by (simp add: dict_get_def strip_html_def split: option.splits)
  from h assms show "get_current_card_info bs srv st =
              (Inr [(ascii ''success'', JBool True),
                    (ascii ''model_name'', m),
                    (ascii ''template'', t),
                    (ascii ''deck_name'',
                       case map_of c (ascii ''deckName'') of None \<Rightarrow> JStr [] | Some d \<Rightarrow> d),
                    (ascii ''question'', JStr (format_question m t q)),
                    (ascii ''answer'', JStr a)], st2)"
    by (simp add: gcci_shown [where c = c and m = m and t = t and v = v] dflt)
       (simp add: dict_get_def)
qed

theorem card_fields_read_witness:
  "get_current_card_info tag_parser scripted
     \<lparr>app = [ok_reply (JObj [(ascii ''modelName'', JStr (ascii ''Phrase'')),
                              (ascii ''template'', JStr (ascii ''card2''))]),
             ok_reply JNull], trace = []\<rparr> =
     (Inr [(ascii ''success'', JBool True),
           (ascii ''model_name'', JStr (ascii ''Phrase'')),
           (ascii ''template'', JStr (ascii ''card2'')),
           (ascii ''deck_name'', JStr []),
           (ascii ''question'', JStr suffix_card2),
           (ascii ''answer'', JStr [])],
      \<lparr>app = [],
        trace = [Sent \<lparr>action = ascii ''guiCurrentCard'', version = 6, params = []\<rparr>,
                 Sent \<lparr>action = ascii ''guiShowAnswer'', version = 6, params = []\<rparr>]\<rparr>)"
proof -
  let ?c = "[(ascii ''modelName'', JStr (ascii ''Phrase'')),
             (ascii ''template'', JStr (ascii ''card2''))]"
  let ?st = "\<lparr>app = [ok_reply (JObj ?c), ok_reply JNull], trace = []\<rparr>"
  let ?st1 = "\<lparr>app = [ok_reply JNull],
    trace = [Sent \<lparr>action = ascii ''guiCurrentCard'', version = 6, params = []\<rparr>]\<rparr>"
  have r1: "request scripted (ascii ''guiCurrentCard'') None ?st = (Inr (JObj ?c), ?st1)"
    by (simp add: request_def scripted_def ok_reply_def)
  show ?thesis
    using card_fields_read [OF r1, of tag_parser]
    by (simp add: request_def scripted_def ok_reply_def format_question_def VOCAB_MODELS_def)
qed

text \<open>
  C2 as stated fails: a card that has every field but \<open>modelName\<close> raises
  \<open>KeyError\<close>.
\<close>

theorem missing_model_name_counterexample:
  "get_current_card_info tag_parser scripted
     \<lparr>app = [ok_reply (JObj [(ascii ''cardId'', JInt 1),
                              (ascii ''template'', JStr (ascii ''card1'')),
                              (ascii ''deckName'', JStr (ascii ''Default'')),
                              (ascii ''question'', JStr (ascii ''apple'')),
                              (ascii ''answer'', JStr (ascii ''a fruit''))]),
             ok_reply JNull], trace = []\<rparr> =
     (Inl (KeyError (ascii ''modelName'')),
      \<lparr>app = [ok_reply JNull],
        trace = [Sent \<lparr>action = ascii ''guiCurrentCard'', version = 6, params = []\<rparr>]\<rparr>)"
  by (simp add: get_current_card_info_def gui_current_card_def bind_io_def lift_io_def
      as_dict_def subscript_def request_def scripted_def ok_reply_def)


lemma request_unreachable:
  "srv (app st) \<lparr>action = act, version = 6, params = []\<rparr> = (URLError, a) \<Longrightarrow>
     request srv act None st =
       (Inl (AnkiConnectError Not_reachable),
        \<lparr>app = a, trace = trace st @ [Sent \<lparr>action = act, version = 6, params = []\<rparr>]\<rparr>)"
  by (simp add: request_def)

lemma request_raised:
  "srv (app st) \<lparr>action = act, version = 6, params = []\<rparr> = (Raised x, a) \<Longrightarrow>
     request srv act None st =
       (Inl (OtherError x),
        \<lparr>app = a, trace = trace st @ [Sent \<lparr>action = act, version = 6, params = []\<rparr>]\<rparr>)"
  by (simp add: request_def)

lemma request_invalid:
  "srv (app st) \<lparr>action = act, version = 6, params = []\<rparr> = (Body (JObj kvs), a) \<Longrightarrow>
     set (map fst kvs) \<noteq> {ascii ''result'', ascii ''error''} \<Longrightarrow>
     request srv act None st =
       (Inl (AnkiConnectError (Invalid_response (JObj kvs))),
        \<lparr>app = a, trace = trace st @ [Sent \<lparr>action = act, version = 6, params = []\<rparr>]\<rparr>)"
  by (simp add: request_def)

text \<open>
  C1, as amended. After a valid ease has been submitted, every \<open>AnkiConnectError\<close>
  raised while the current card is fetched again, whatever its message, is turned into
  the deck-finished view; every exception of another class reaches the caller as it
  is; and a view that was fetched is returned as it is.
\<close>

theorem refetch_handler:
  assumes "ease \<in> {1, 2, 3, 4}"
      and "gui_answer_card srv ease st = (Inr u, st1)"
      and "get_current_card_info bs srv (st1\<lparr>trace := trace st1 @ [Slept 1]\<rparr>) = (r, st3)"
  shows "(\<forall>m. r = Inl (AnkiConnectError m) \<longrightarrow>
            answer_and_get_next_card bs srv ease st = (Inr deck_finished, st3))
     \<and> (\<forall>e. r = Inl e \<and> (\<forall>m. e \<noteq> AnkiConnectError m) \<longrightarrow>
            answer_and_get_next_card bs srv ease st = (Inl e, st3))
     \<and> (\<forall>v. r = Inr v \<longrightarrow> answer_and_get_next_card bs srv ease st = (Inr v, st3))
     \<and> (\<forall>a. srv (app st1) \<lparr>action = ascii ''guiCurrentCard'', version = 6, params = []\<rparr> =
              (URLError, a) \<longrightarrow>
            r = Inl (AnkiConnectError Not_reachable))
     \<and> (\<forall>kvs a. srv (app st1) \<lparr>action = ascii ''guiCurrentCard'', version = 6, params = []\<rparr> =
              (Body (JObj kvs), a)
            \<and> set (map fst kvs) \<noteq> {ascii ''result'', ascii ''error''} \<longrightarrow>
            r = Inl (AnkiConnectError (Invalid_response (JObj kvs))))
     \<and> (\<forall>x a. srv (app st1) \<lparr>action = ascii ''guiCurrentCard'', version = 6, params = []\<rparr> =
              (Raised x, a) \<longrightarrow>
            r = Inl (OtherError x))"
proof -
  let ?st2 = "st1\<lparr>trace := trace st1 @ [Slept 1]\<rparr>"
  let ?cur = "\<lparr>action = ascii ''guiCurrentCard'', version = 6, params = []\<rparr>"
  have unf: "answer_and_get_next_card bs srv ease st =
      (case r of Inl (AnkiConnectError m) \<Rightarrow> Inr deck_finished | _ \<Rightarrow> r, st3)"
    using assms by (rule answer_submitted)
  have handled: "\<forall>m. r = Inl (AnkiConnectError m) \<longrightarrow>
      answer_and_get_next_card bs srv ease st = (Inr deck_finished, st3)"
    using unf by simp
  have passed: "\<forall>e. r = Inl e \<and> (\<forall>m. e \<noteq> AnkiConnectError m) \<longrightarrow>
      answer_and_get_next_card bs srv ease st = (Inl e, st3)"
    using unf by (auto split: error.splits)
  have fetched: "\<forall>v. r = Inr v \<longrightarrow> answer_and_get_next_card bs srv ease st = (Inr v, st3)"
    using unf by simp
  have unreachable: "r = Inl (AnkiConnectError Not_reachable)"
    if "srv (app st1) ?cur = (URLError, a)" for a
  proof -
    from that have "srv (app ?st2) ?cur = (URLError, a)" by simp
    then have "get_current_card_info bs srv ?st2 =
        (Inl (AnkiConnectError Not_reachable), \<lparr>app = a, trace = trace ?st2 @ [Sent ?cur]\<rparr>)"
      by (intro gcci_fetch_fails request_unreachable)
    with assms(3) show ?thesis by simp
  qed
  have invalid: "r = Inl (AnkiConnectError (Invalid_response (JObj kvs)))"
    if "srv (app st1) ?cur = (Body (JObj kvs), a)"
      and "set (map fst kvs) \<noteq> {ascii ''result'', ascii ''error''}" for kvs a
  proof -
    from that have "srv (app ?st2) ?cur = (Body (JObj kvs), a)" by simp
    then have "get_current_card_info bs srv ?st2 =
        (Inl (AnkiConnectError (Invalid_response (JObj kvs))),
         \<lparr>app = a, trace = trace ?st2 @ [Sent ?cur]\<rparr>)"
      using that(2) by (intro gcci_fetch_fails request_invalid)
    with assms(3) show ?thesis by simp
  qed
  have raised: "r = Inl (OtherError x)"
    if "srv (app st1) ?cur = (Raised x, a)" for x a
  proof -
    from that have "srv (app ?st2) ?cur = (Raised x, a)" by simp
    then have "get_current_card_info bs srv ?st2 =
        (Inl (OtherError x), \<lparr>app = a, trace = trace ?st2 @ [Sent ?cur]\<rparr>)"
      by (intro gcci_fetch_fails request_raised)
    with assms(3) show ?thesis by simp
  qed
  from handled passed fetched unreachable invalid raised show ?thesis
    by blast
qed

lemma answer_then_unreachable:
  "answer_and_get_next_card tag_parser scripted 3
      \<lparr>app = [ok_reply JNull, URLError], trace = []\<rparr> =
     (Inr deck_finished,
      \<lparr>app = [],
        trace = [Sent \<lparr>action = ascii ''guiAnswerCard'', version = 6,
                       params = [(ascii ''ease'', JInt 3)]\<rparr>,
                 Slept 1,
                 Sent \<lparr>action = ascii ''guiCurrentCard'', version = 6, params = []\<rparr>]\<rparr>)"
  by (simp add: answer_and_get_next_card_def gui_answer_card_def sleep_def
      get_current_card_info_def gui_current_card_def bind_io_def return_io_def
      request_def scripted_def ok_reply_def)


theorem refetch_handler_witness:
  "answer_and_get_next_card tag_parser scripted 3
      \<lparr>app = [ok_reply JNull,
               Body (JObj [(ascii ''result'', JNull),
                           (ascii ''error'', JStr (ascii ''no card''))])], trace = []\<rparr> =
     (Inr deck_finished,
      \<lparr>app = [],
        trace = [Sent \<lparr>action = ascii ''guiAnswerCard'', version = 6,
                       params = [(ascii ''ease'', JInt 3)]\<rparr>,
                 Slept 1,
                 Sent \<lparr>action = ascii ''guiCurrentCard'', version = 6, params = []\<rparr>]\<rparr>)
   \<and> answer_and_get_next_card tag_parser scripted 3
      \<lparr>app = [ok_reply JNull, Raised (ascii ''JSONDecodeError'')], trace = []\<rparr> =
     (Inl (OtherError (ascii ''JSONDecodeError'')),
      \<lparr>app = [],
        trace = [Sent \<lparr>action = ascii ''guiAnswerCard'', version = 6,
                       params = [(ascii ''ease'', JInt 3)]\<rparr>,
                 Slept 1,
                 Sent \<lparr>action = ascii ''guiCurrentCard'', version = 6, params = []\<rparr>]\<rparr>)"
proof -
  let ?ans = "Sent \<lparr>action = ascii ''guiAnswerCard'', version = 6,
                    params = [(ascii ''ease'', JInt 3)]\<rparr>"
  let ?cur = "Sent \<lparr>action = ascii ''guiCurrentCard'', version = 6, params = []\<rparr>"
  let ?no_card = "Body (JObj [(ascii ''result'', JNull),
                              (ascii ''error'', JStr (ascii ''no card''))])"
  have valid: "(3::int) \<in> {1, 2, 3, 4}" by simp
  have a1: "gui_answer_card scripted 3 \<lparr>app = [ok_reply JNull, ?no_card], trace = []\<rparr> =
      (Inr (), \<lparr>app = [?no_card], trace = [?ans]\<rparr>)"
    by (simp add: gui_answer_card_def bind_io_def return_io_def request_def scripted_def
        ok_reply_def)
  have g1: "get_current_card_info tag_parser scripted
        (\<lparr>app = [?no_card], trace = [?ans]\<rparr>
           \<lparr>trace := trace \<lparr>app = [?no_card], trace = [?ans]\<rparr> @ [Slept 1]\<rparr>) =
      (Inl (AnkiConnectError (Error_str (JStr (ascii ''no card'')))),
       \<lparr>app = [], trace = [?ans, Slept 1, ?cur]\<rparr>)"
    by (simp add: get_current_card_info_def gui_current_card_def bind_io_def request_def
        scripted_def)
  have a2: "gui_answer_card scripted 3
        \<lparr>app = [ok_reply JNull, Raised (ascii ''JSONDecodeError'')], trace = []\<rparr> =
      (Inr (), \<lparr>app = [Raised (ascii ''JSONDecodeError'')], trace = [?ans]\<rparr>)"
    by (simp add: gui_answer_card_def bind_io_def return_io_def request_def scripted_def
        ok_reply_def)
  have g2: "get_current_card_info tag_parser scripted
        (\<lparr>app = [Raised (ascii ''JSONDecodeError'')], trace = [?ans]\<rparr>
           \<lparr>trace := trace \<lparr>app = [Raised (ascii ''JSONDecodeError'')], trace = [?ans]\<rparr>
              @ [Slept 1]\<rparr>) =
      (Inl (OtherError (ascii ''JSONDecodeError'')),
       \<lparr>app = [], trace = [?ans, Slept 1, ?cur]\<rparr>)"
    by (simp add: get_current_card_info_def gui_current_card_def bind_io_def request_def
        scripted_def)
  show ?thesis
    using refetch_handler [OF valid a1 g1] refetch_handler [OF valid a2 g2]
    by simp
qed

text \<open>
  C1 as stated fails: when the service cannot be reached for the second fetch, or
  answers with a malformed envelope, the result is the deck-finished view and no
  exception reaches the caller.
\<close>

theorem refetch_unreachable_counterexample:
  "get_current_card_info tag_parser scripted
      \<lparr>app = [URLError],
        trace = [Sent \<lparr>action = ascii ''guiAnswerCard'', version = 6,
                       params = [(ascii ''ease'', JInt 3)]\<rparr>, Slept 1]\<rparr> =
     (Inl (AnkiConnectError Not_reachable),
      \<lparr>app = [],
        trace = [Sent \<lparr>action = ascii ''guiAnswerCard'', version = 6,
                       params = [(ascii ''ease'', JInt 3)]\<rparr>,
                 Slept 1,
                 Sent \<lparr>action = ascii ''guiCurrentCard'', version = 6, params = []\<rparr>]\<rparr>)
   \<and> answer_and_get_next_card tag_parser scripted 3
      \<lparr>app = [ok_reply JNull, URLError], trace = []\<rparr> =
     (Inr deck_finished,
      \<lparr>app = [],
        trace = [Sent \<lparr>action = ascii ''guiAnswerCard'', version = 6,
                       params = [(ascii ''ease'', JInt 3)]\<rparr>,
                 Slept 1,
                 Sent \<lparr>action = ascii ''guiCurrentCard'', version = 6, params = []\<rparr>]\<rparr>)
   \<and> fst (answer_and_get_next_card tag_parser scripted 3
      \<lparr>app = [ok_reply JNull, Body (JObj [(ascii ''result'', JNull)])], trace = []\<rparr>) =
     Inr deck_finished"
  by (simp add: answer_and_get_next_card_def gui_answer_card_def sleep_def
      get_current_card_info_def gui_current_card_def bind_io_def return_io_def
      request_def scripted_def ok_reply_def)

text \<open>
  C6, as amended. A view returned by \<open>start_learning\<close> has exactly the keys
  \<open>success\<close>, \<open>model_name\<close>, \<open>template\<close>, \<open>deck_name\<close>, \<open>question\<close> and
  \<open>answer\<close>. A view returned by \<open>answer_and_get_next_card\<close> has either these
  keys or is the deck-finished view, whose keys are \<open>success\<close>, \<open>deck_finished\<close>,
  \<open>model_name\<close>, \<open>deck_name\<close>, \<open>question\<close> and \<open>answer\<close>.
\<close>

theorem view_keys:
  "(\<forall>v st'. start_learning bs srv st = (Inr v, st') \<longrightarrow>
       map fst v = [ascii ''success'', ascii ''model_name'', ascii ''template'',
                    ascii ''deck_name'', ascii ''question'', ascii ''answer''])
   \<and> (\<forall>v st'. answer_and_get_next_card bs srv ease st = (Inr v, st') \<longrightarrow>
       map fst v = [ascii ''success'', ascii ''model_name'', ascii ''template'',
                    ascii ''deck_name'', ascii ''question'', ascii ''answer'']
       \<or> v = deck_finished)
   \<and> map fst deck_finished =
       [ascii ''success'', ascii ''deck_finished'', ascii ''model_name'',
        ascii ''deck_name'', ascii ''question'', ascii ''answer'']"
proof (intro conjI allI impI)
  fix v st' assume "start_learning bs srv st = (Inr v, st')"
  then have "get_current_card_info bs srv st = (Inr v, st')"
    by (simp add: start_learning_def)
  from gcci_view [OF this]
  show "map fst v = [ascii ''success'', ascii ''model_name'', ascii ''template'',
                    ascii ''deck_name'', ascii ''question'', ascii ''answer'']"
    by auto
next
  fix v st' assume res: "answer_and_get_next_card bs srv ease st = (Inr v, st')"
  show "map fst v = [ascii ''success'', ascii ''model_name'', ascii ''template'',
                    ascii ''deck_name'', ascii ''question'', ascii ''answer'']
       \<or> v = deck_finished"
  proof (cases "ease \<in> {1, 2, 3, 4}")
    case False
    with res show ?thesis by (simp add: answer_rejected)
  next
    case True
    obtain r st1 where ans: "gui_answer_card srv ease st = (r, st1)"
      by (cases "gui_answer_card srv ease st")
    show ?thesis
    proof (cases r)
      case (Inl e)
      with True ans res show ?thesis by (simp add: answer_not_submitted)
    next
      case (Inr u)
      let ?st2 = "st1\<lparr>trace := trace st1 @ [Slept 1]\<rparr>"
      obtain r3 st3 where g: "get_current_card_info bs srv ?st2 = (r3, st3)"
        by (cases "get_current_card_info bs srv ?st2")
      have unf: "answer_and_get_next_card bs srv ease st =
          (case r3 of Inl (AnkiConnectError m) \<Rightarrow> Inr deck_finished | _ \<Rightarrow> r3, st3)"
        using True ans [unfolded Inr] g by (rule answer_submitted)
      show ?thesis
      proof (cases r3)
        case (Inl e)
        with unf res show ?thesis by (cases e) simp_all
      next
        case (Inr w)
        with unf res have "w = v" by simp
        with g Inr have "get_current_card_info bs srv ?st2 = (Inr v, st3)" by simp
        from gcci_view [OF this] show ?thesis by auto
      qed
    qed
  qed
next
  show "map fst deck_finished =
       [ascii ''success'', ascii ''deck_finished'', ascii ''model_name'',
        ascii ''deck_name'', ascii ''question'', ascii ''answer'']"
    by (simp add: deck_finished_def)
qed

text \<open>
  C6 as stated fails: the deck-finished view has no key \<open>template\<close>.
\<close>

theorem deck_finished_keys_counterexample:
  "fst (answer_and_get_next_card tag_parser scripted 4
      \<lparr>app = [ok_reply JNull,
               Body (JObj [(ascii ''result'', JNull),
                           (ascii ''error'', JStr (ascii ''no card''))])], trace = []\<rparr>) =
     Inr [(ascii ''success'', JBool True),
          (ascii ''deck_finished'', JBool True),
          (ascii ''model_name'', JStr []),
          (ascii ''deck_name'', JStr []),
          (ascii ''question'', JStr []),
          (ascii ''answer'', JStr [])]
   \<and> ascii ''template'' \<notin> set (map fst deck_finished)"
  by (simp add: answer_and_get_next_card_def gui_answer_card_def sleep_def
      get_current_card_info_def gui_current_card_def bind_io_def return_io_def
      request_def scripted_def ok_reply_def deck_finished_def)


lemma start_learning_apple:
  "start_learning tag_parser scripted
      \<lparr>app = [ok_reply apple_card, ok_reply JNull], trace = []\<rparr> =
     (Inr [(ascii ''success'', JBool True),
           (ascii ''model_name'', JStr (ascii ''Vocabulary'')),
           (ascii ''template'', JStr (ascii ''card1'')),
           (ascii ''deck_name'', JStr (ascii ''Default'')),
           (ascii ''question'', JStr (ascii ''apple'' @ suffix_card1)),
           (ascii ''answer'', JStr (ascii ''a fruit'' @ 10 # ascii ''red or green''))],
      \<lparr>app = [],
        trace = [Sent \<lparr>action = ascii ''guiCurrentCard'', version = 6, params = []\<rparr>,
                 Sent \<lparr>action = ascii ''guiShowAnswer'', version = 6, params = []\<rparr>]\<rparr>)"
  using strip_html_apple_question strip_html_apple_answer
  by (simp add: start_learning_def get_current_card_info_def gui_current_card_def
      gui_show_answer_def bind_io_def lift_io_def return_io_def as_dict_def subscript_def
      request_def scripted_def ok_reply_def apple_card_def dict_get_def format_question_def
      VOCAB_MODELS_def)

theorem view_keys_witness:
  "(\<exists>v st'. start_learning tag_parser scripted
        \<lparr>app = [ok_reply apple_card, ok_reply JNull], trace = []\<rparr> = (Inr v, st')
      \<and> map fst v = [ascii ''success'', ascii ''model_name'', ascii ''template'',
                      ascii ''deck_name'', ascii ''question'', ascii ''answer''])
   \<and> (\<exists>v st'. answer_and_get_next_card tag_parser scripted 3
        \<lparr>app = [ok_reply JNull, URLError], trace = []\<rparr> = (Inr v, st')
      \<and> map fst v = [ascii ''success'', ascii ''deck_finished'', ascii ''model_name'',
                      ascii ''deck_name'', ascii ''question'', ascii ''answer''])"
  using view_keys [of tag_parser scripted
      "\<lparr>app = [ok_reply apple_card, ok_reply JNull], trace = []\<rparr>" 3]
    view_keys [of tag_parser scripted "\<lparr>app = [ok_reply JNull, URLError], trace = []\<rparr>" 3]
    start_learning_apple answer_then_unreachable
  by simp

section \<open>Properties of the text normalizer\<close>

lemma dropWhile_hd: "dropWhile P l \<noteq> [] \<Longrightarrow> \<not> P (hd (dropWhile P l))"
  by (metis hd_dropWhile)

lemma dropWhile_last: "dropWhile P l \<noteq> [] \<Longrightarrow> last (dropWhile P l) = last l"
  by (induction l) (auto split: if_splits)

lemma strip_hd: "strip l \<noteq> [] \<Longrightarrow> \<not> is_space (hd (strip l))"
proof -
  assume ne: "strip l \<noteq> []"
  let ?m = "dropWhile is_space l"
  let ?r = "dropWhile is_space (rev ?m)"
  from ne have r: "?r \<noteq> []" by (simp add: strip_def)
  have m: "?m \<noteq> []"
  proof
    assume "?m = []"
    with r show False by (metis dropWhile.simps(1) rev.simps(1))
  qed
  have "hd (strip l) = last ?r" using r by (simp add: strip_def hd_rev)
  also have "\<dots> = last (rev ?m)" using r by (rule dropWhile_last)
  also have "\<dots> = hd ?m" using m by (simp add: last_rev)
  finally show ?thesis using dropWhile_hd [OF m] by simp
qed

lemma strip_last: "strip l \<noteq> [] \<Longrightarrow> \<not> is_space (last (strip l))"
proof -
  assume ne: "strip l \<noteq> []"
  let ?r = "dropWhile is_space (rev (dropWhile is_space l))"
  from ne have r: "?r \<noteq> []" by (simp add: strip_def)
  have "last (strip l) = hd ?r" using r by (simp add: strip_def last_rev)
  then show ?thesis using dropWhile_hd [OF r] by simp
qed

lemma strip_fixed:
  assumes "l = [] \<or> (\<not> is_space (hd l) \<and> \<not> is_space (last l))"
  shows "strip l = l"
proof (cases "l = []")
  case True
  then show ?thesis by (simp add: strip_def)
next
  case False
  with assms have h: "\<not> is_space (hd l)" and t: "\<not> is_space (last l)" by auto
  from False h have 1: "dropWhile is_space l = l"
    by (cases l) auto
  from False t have 2: "dropWhile is_space (rev l) = rev l"
    by (cases "rev l") (auto simp: hd_rev [symmetric])
  show ?thesis by (simp add: strip_def 1 2)
qed

lemma strip_idem: "strip (strip l) = strip l"
  using strip_hd [of l] strip_last [of l] by (intro strip_fixed) blast

lemma set_strip: "set (strip l) \<subseteq> set l"
  unfolding strip_def
  by (metis set_dropWhileD set_rev subsetI)

lemma split_nl_no_nl: "l \<in> set (split_nl t) \<Longrightarrow> 10 \<notin> set l"
  by (induction t arbitrary: l) (auto split: if_splits list.splits)

lemma split_nl_plain: "10 \<notin> set l \<Longrightarrow> split_nl l = [l]"
  by (induction l) auto

lemma split_nl_append: "10 \<notin> set l \<Longrightarrow> split_nl (l @ 10 # t) = l # split_nl t"
  by (induction l) auto

lemma split_join:
  "ls \<noteq> [] \<Longrightarrow> \<forall>l \<in> set ls. 10 \<notin> set l \<Longrightarrow> split_nl (join_nl ls) = ls"
  by (induction ls rule: join_nl.induct) (auto simp: split_nl_plain split_nl_append)

lemma normal_lines:
  assumes "l \<in> set (filter (\<lambda>line. line \<noteq> []) (map strip (split_nl t)))"
  shows "l \<noteq> [] \<and> 10 \<notin> set l \<and> strip l = l"
proof -
  from assms obtain l0 where l0: "l0 \<in> set (split_nl t)" and l: "l = strip l0" and ne: "l \<noteq> []"
    by auto
  from l0 have "10 \<notin> set l0" by (rule split_nl_no_nl)
  with set_strip [of l0] l have "10 \<notin> set l" by auto
  with l ne show ?thesis by (simp add: strip_idem)
qed

lemma strip_html_lines:
  assumes "strip_html bs y = Inr x"
  shows "\<exists>t. x = join_nl (filter (\<lambda>line. line \<noteq> []) (map strip (split_nl t)))"
proof (cases "truthy y")
  case False
  with assms have "x = []" by (simp add: strip_html_def)
  then have "x = join_nl (filter (\<lambda>line. line \<noteq> []) (map strip (split_nl [])))"
    by (simp add: strip_def)
  then show ?thesis ..
next
  case True
  with assms show ?thesis
    by (auto simp: strip_html_def Let_def split: sum.splits)
qed

lemma clean_lines_fixed:
  assumes "\<forall>l \<in> set ls. l \<noteq> [] \<and> 10 \<notin> set l \<and> strip l = l"
  shows "join_nl (filter (\<lambda>line. line \<noteq> []) (map strip (split_nl (join_nl ls)))) =
           join_nl ls"
proof (cases "ls = []")
  case True
  then show ?thesis by (simp add: strip_def)
next
  case False
  with assms have split: "split_nl (join_nl ls) = ls"
    by (simp add: split_join)
  from assms have fixed: "map strip ls = ls"
    by (simp add: map_idI)
  from assms have kept: "filter (\<lambda>line. line \<noteq> []) ls = ls"
    by (simp add: filter_id_conv)
  show ?thesis by (simp add: split fixed kept)
qed

lemma strip_html_result_fixed:
  assumes "strip_html bs y = Inr x"
  shows "join_nl (filter (\<lambda>line. line \<noteq> []) (map strip (split_nl x))) = x"
proof -
  from assms obtain t
    where x: "x = join_nl (filter (\<lambda>line. line \<noteq> []) (map strip (split_nl t)))"
    using strip_html_lines by blast
  have "\<forall>l \<in> set (filter (\<lambda>line. line \<noteq> []) (map strip (split_nl t))).
      l \<noteq> [] \<and> 10 \<notin> set l \<and> strip l = l"
    using normal_lines by blast
  from clean_lines_fixed [OF this] x show ?thesis by simp
qed

lemma strip_html_text_node:
  assumes "x \<noteq> []" and "bs (JStr x) = Inr [Str x]"
  shows "strip_html bs (JStr x) =
     Inr (join_nl (filter (\<lambda>line. line \<noteq> []) (map strip (split_nl x))))"
  using assms by (simp add: strip_html_def)

text \<open>
  C9, as amended. A result \<open>x\<close> of \<open>_strip_html\<close> is left unchanged by the line
  processing (split at newlines, strip, drop the empty lines, join). If \<open>x\<close> is
  empty, or the parser takes \<open>x\<close> and gives the one text node holding \<open>x\<close>, then
  \<open>_strip_html\<close> returns \<open>x\<close> for \<open>x\<close>, so normalizing twice gives what
  normalizing once gives, for the input that led to \<open>x\<close> and for \<open>x\<close> itself. The
  result of \<open>_strip_html\<close> is fixed by the truth value of its input and the tree the
  parser returns for it.
\<close>

theorem strip_html_idempotent:
  assumes "strip_html bs y = Inr x"
  shows "join_nl (filter (\<lambda>line. line \<noteq> []) (map strip (split_nl x))) = x
     \<and> (x = [] \<or> bs (JStr x) = Inr [Str x] \<longrightarrow>
          strip_html bs (JStr x) = Inr x
          \<and> strip_html_twice bs y = strip_html bs y
          \<and> strip_html_twice bs (JStr x) = strip_html bs (JStr x))
     \<and> (\<forall>bs' h h'. truthy h = truthy h' \<and> bs h = bs' h' \<longrightarrow>
          strip_html bs h = strip_html bs' h')"
proof (intro conjI impI allI)
  show lines: "join_nl (filter (\<lambda>line. line \<noteq> []) (map strip (split_nl x))) = x"
    using assms by (rule strip_html_result_fixed)
  assume parsed: "x = [] \<or> bs (JStr x) = Inr [Str x]"
  show fixed: "strip_html bs (JStr x) = Inr x"
  proof (cases "x = []")
    case True
    then show ?thesis by (simp add: strip_html_def)
  next
    case False
    with parsed have "bs (JStr x) = Inr [Str x]" by simp
    with False lines show ?thesis by (simp add: strip_html_text_node)
  qed
  from assms fixed show "strip_html_twice bs y = strip_html bs y"
    by (simp add: strip_html_twice_def)
  from fixed show "strip_html_twice bs (JStr x) = strip_html bs (JStr x)"
    by (simp add: strip_html_twice_def)
next
  fix bs' :: html_parser and h h'
  assume "truthy h = truthy h' \<and> bs h = bs' h'"
  then show "strip_html bs h = strip_html bs' h'"
    by (simp add: strip_html_def)
qed

lemma tag_parser_hello_world:
  "tag_parser (JStr (ascii ''<p>Hello</p><br><p>World</p>'')) = Inr hello_world_soup"
  by (simp add: tag_parser_def tag_token_def void_tags_def hello_world_soup_def)

text \<open>
  C8. For the markup \<open><p>Hello</p><br><p>World</p>\<close>, which the parser turns into a
  paragraph, a line break and a paragraph, the text of the tree after the four loops
  is \<open>Hello\n\nWorld\n\<close>, and \<open>_strip_html\<close> returns the two lines
  \<open>Hello\nWorld\<close>.
\<close>

theorem strip_html_hello_world:
  assumes "bs (JStr (ascii ''<p>Hello</p><br><p>World</p>'')) = Inr hello_world_soup"
  shows "strip_html bs (JStr (ascii ''<p>Hello</p><br><p>World</p>'')) =
           Inr (ascii ''Hello'' @ 10 # ascii ''World'')
     \<and> get_text (insert_after_p (replace_br
           (decompose_all (ascii ''dl'') (ascii ''footnote'')
             (decompose_all (ascii ''div'') (ascii ''audio'') hello_world_soup)))) =
           ascii ''Hello'' @ 10 # 10 # ascii ''World'' @ [10]"
  using assms by (simp add: strip_html_def hello_world_soup_def strip_def is_space_def)

theorem strip_html_hello_world_witness:
  "strip_html tag_parser (JStr (ascii ''<p>Hello</p><br><p>World</p>'')) =
     Inr (ascii ''Hello'' @ 10 # ascii ''World'')"
  using strip_html_hello_world [of tag_parser] tag_parser_hello_world by simp

theorem strip_html_idempotent_witness:
  "strip_html tag_parser (JStr (ascii ''Hello'' @ 10 # ascii ''World'')) =
     Inr (ascii ''Hello'' @ 10 # ascii ''World'')
   \<and> strip_html_twice tag_parser (JStr (ascii ''<p>Hello</p><br><p>World</p>'')) =
     strip_html tag_parser (JStr (ascii ''<p>Hello</p><br><p>World</p>''))"
proof -
  have y: "strip_html tag_parser (JStr (ascii ''<p>Hello</p><br><p>World</p>'')) =
      Inr (ascii ''Hello'' @ 10 # ascii ''World'')"
    using tag_parser_hello_world
    by (simp add: strip_html_def hello_world_soup_def strip_def is_space_def)
  have parsed: "tag_parser (JStr (ascii ''Hello'' @ 10 # ascii ''World'')) =
      Inr [Str (ascii ''Hello'' @ 10 # ascii ''World'')]"
    by (simp add: tag_parser_def)
  show ?thesis
    using strip_html_idempotent [OF y] parsed by simp
qed

text \<open>
  C9 as stated fails: \<open>w\<close> followed by a lone surrogate is a result of
  \<open>_strip_html\<close> and holds neither \<open><\<close> nor \<open>&\<close>, and normalizing it again
  raises.
\<close>

theorem strip_html_surrogate_counterexample:
  "strip_html checking_parser (JStr (ascii ''<b>w'' @ 55296 # ascii ''</b>'')) =
     Inr [119, 55296]
   \<and> 60 \<notin> set [119, 55296 :: nat] \<and> 38 \<notin> set [119, 55296 :: nat]
   \<and> strip_html checking_parser (JStr [119, 55296]) =
     Inl (OtherError (ascii ''UnicodeEncodeError''))
   \<and> strip_html_twice checking_parser (JStr (ascii ''<b>w'' @ 55296 # ascii ''</b>'')) \<noteq>
     strip_html checking_parser (JStr (ascii ''<b>w'' @ 55296 # ascii ''</b>''))"
  by (simp add: strip_html_twice_def strip_html_def checking_parser_def has_surrogate_def
      tag_parser_def tag_token_def void_tags_def strip_def is_space_def)

end
